theory Spec2Isabelle
  imports Main "HOL-Library.Word"
begin

section \<open>Values of the request and of the database\<close>

text \<open>
  A field of a JSON request body, a path parameter, or a value handed to the database.
  \<open>JUndefined\<close> is what reading a missing key gives. A number \<open>JNum n\<close> is a safe integer,
  from \<open>- (2 ^ 53)\<close> to \<open>2 ^ 53 - 1\<close>, read by \<open>sint n\<close>: the integers a JavaScript number
  holds exactly and prints digit for digit. Strings are lists of 8-bit characters. Numbers
  outside that range, fractions, arrays and objects are not values of this development:
  nothing below speaks of a request that holds one.
\<close>

datatype jsval = JUndefined | JNull | JBool bool | JNum "54 word" | JStr string

text \<open>JavaScript's truthiness, as the tests \<open>if (name)\<close> and \<open>if (quantity)\<close> read it.\<close>

fun truthy :: "jsval \<Rightarrow> bool" where
  "truthy JUndefined = False"
| "truthy JNull = False"
| "truthy (JBool b) = b"
| "truthy (JNum n) = (n \<noteq> 0)"
| "truthy (JStr s) = (s \<noteq> [])"

subsection \<open>Decimal numerals\<close>

definition digit_char :: "nat \<Rightarrow> char" where
  "digit_char d = char_of (48 + d)"

definition is_digit :: "char \<Rightarrow> bool" where
  "is_digit c = (48 \<le> (of_char c :: nat) \<and> (of_char c :: nat) \<le> 57)"

definition digit_val :: "char \<Rightarrow> nat" where
  "digit_val c = of_char c - 48"

text \<open>
  \<open>String(n)\<close> for a safe integer \<open>n\<close>: its decimal digits, a minus sign when negative.
  (Only safe integers are printed this way; \<open>toString\<close> applies \<open>show_int\<close> to no other.)
\<close>

fun show_nat :: "nat \<Rightarrow> string" where
  "show_nat n = (if n < 10 then [digit_char n]
                 else show_nat (n div 10) @ [digit_char (n mod 10)])"

declare show_nat.simps [simp del]

definition show_int :: "int \<Rightarrow> string" where
  "show_int i = (if i < 0 then CHR ''-'' # show_nat (nat (- i)) else show_nat (nat i))"

text \<open>
  Modelled from the spec: the string conversion of the validation library, which is not
  under src/. Every validator and sanitizer of a chain works on the field converted to a
  string: a string is itself, a number and a boolean are printed as JavaScript prints them,
  a missing or null field is the empty string (so that a required field that is missing
  fails its check).
\<close>

fun toString :: "jsval \<Rightarrow> string" where
  "toString JUndefined = []"
| "toString JNull = []"
| "toString (JBool b) = (if b then ''true'' else ''false'')"
| "toString (JNum n) = show_int (sint n)"
| "toString (JStr s) = s"

subsection \<open>Sanitizers and validators of the validation library\<close>

text \<open>
  Modelled from the spec: \<open>trim\<close>, of the validation library, is not under src/. The
  name is "trimmed of leading/trailing whitespace": the whitespace characters are tab, line
  feed, vertical tab, form feed, carriage return, space and no-break space.
\<close>

definition is_space :: "char \<Rightarrow> bool" where
  "is_space c = (c \<in> set [CHR 0x09, CHR 0x0A, CHR 0x0B, CHR 0x0C, CHR 0x0D, CHR 0x20, CHR 0xA0])"

definition ltrim :: "string \<Rightarrow> string" where
  "ltrim s = dropWhile is_space s"

definition rtrim :: "string \<Rightarrow> string" where
  "rtrim s = rev (dropWhile is_space (rev s))"

definition trim :: "string \<Rightarrow> string" where
  "trim s = rtrim (ltrim s)"

text \<open>
  Modelled from the spec: \<open>escape\<close>, of the validation library, is not under src/. The
  name is "HTML-escaped to neutralize markup": the characters \<open>& " ' < > /\<close>, backslash
  and backquote are each replaced with an HTML entity, every other character is kept.
\<close>

definition escape_char :: "char \<Rightarrow> string" where
  "escape_char c =
     (if c = CHR ''&'' then ''&amp;''
      else if c = CHR 0x22 then ''&quot;''
      else if c = CHR 0x27 then ''&#x27;''
      else if c = CHR ''<'' then ''&lt;''
      else if c = CHR ''>'' then ''&gt;''
      else if c = CHR ''/'' then ''&#x2F;''
      else if c = CHR 0x5C then ''&#x5C;''
      else if c = CHR 0x60 then ''&#96;''
      else [c])"

definition escape :: "string \<Rightarrow> string" where
  "escape s = concat (map escape_char s)"

text \<open>
  Modelled from the spec: \<open>isLength\<close>, of the validation library, is not under src/. The
  name "must have length \<ge> 1": \<open>isLength({ min: m })\<close> holds when the string has at least
  \<open>m\<close> characters.
\<close>

definition isLength :: "string \<Rightarrow> nat \<Rightarrow> bool" where
  "isLength str m = (m \<le> length str)"

text \<open>
  Modelled from the spec: \<open>isInt\<close>, of the validation library, is not under src/. The
  path id "must parse as an integer" and the quantity "must parse as an integer \<ge> 1": a
  string parses as an integer when it is an optional sign followed by one or more decimal
  digits, and with \<open>{ min: m }\<close> the number it denotes must be at least \<open>m\<close>.
  \<open>to_number\<close> is the number such a string denotes.
\<close>

definition unsigned_part :: "string \<Rightarrow> string" where
  "unsigned_part s =
     (case s of [] \<Rightarrow> []
      | c # r \<Rightarrow> if c = CHR ''-'' \<or> c = CHR ''+'' then r else s)"

definition int_syntax :: "string \<Rightarrow> bool" where
  "int_syntax s = (unsigned_part s \<noteq> [] \<and> list_all is_digit (unsigned_part s))"

definition digits_value :: "string \<Rightarrow> nat" where
  "digits_value ds = foldl (\<lambda>a c. 10 * a + digit_val c) 0 ds"

definition to_number :: "string \<Rightarrow> int" where
  "to_number s =
     (case s of [] \<Rightarrow> 0
      | c # r \<Rightarrow> if c = CHR ''-'' then - int (digits_value r) else int (digits_value (unsigned_part s)))"

definition isInt :: "string \<Rightarrow> int option \<Rightarrow> bool" where
  "isInt str minimum =
     (int_syntax str \<and> (case minimum of None \<Rightarrow> True | Some m \<Rightarrow> m \<le> to_number str))"

section \<open>Requests, validation chains and responses\<close>

text \<open>
  What a handler reads of a request: the path parameter \<open>req.params.id\<close> (the POST
  route has none and never reads it) and the two body fields.
\<close>

record request =
  params_id :: string
  body_name :: jsval
  body_quantity :: jsval

text \<open>One entry of \<open>validationResult(req).array()\<close>.\<close>

record verror =
  err_value :: jsval
  err_msg :: string
  err_param :: string
  err_location :: string

definition invalid :: "string \<Rightarrow> string \<Rightarrow> jsval \<Rightarrow> verror" where
  "invalid loc field v =
     \<lparr>err_value = v, err_msg = ''Invalid value'', err_param = field, err_location = loc\<rparr>"

text \<open>
  The chains of the routes, each giving the errors it records and, where it sanitizes,
  the value it leaves in the request. A chain marked \<open>optional()\<close> does nothing on a
  field that is undefined.

  \<^item> \<open>param('id').isInt()\<close>
  \<^item> \<open>body('name').trim().isLength({ min: 1 }).escape()\<close>
  \<^item> \<open>body('name').optional().trim().escape()\<close>
  \<^item> \<open>body('quantity').isInt({ min: 1 })\<close>
  \<^item> \<open>body('quantity').optional().isInt({ min: 1 })\<close>
\<close>

definition check_id :: "string \<Rightarrow> verror list" where
  "check_id i =
     (if isInt (toString (JStr i)) None then [] else [invalid ''params'' ''id'' (JStr i)])"

definition name_required :: "jsval \<Rightarrow> verror list \<times> jsval" where
  "name_required v =
     (let trimmed = JStr (trim (toString v));
          errs = (if isLength (toString trimmed) 1 then []
                  else [invalid ''body'' ''name'' trimmed])
      in (errs, JStr (escape (toString trimmed))))"

definition name_optional :: "jsval \<Rightarrow> verror list \<times> jsval" where
  "name_optional v =
     (if v = JUndefined then ([], v)
      else let trimmed = JStr (trim (toString v))
           in ([], JStr (escape (toString trimmed))))"

definition quantity_required :: "jsval \<Rightarrow> verror list" where
  "quantity_required v =
     (if isInt (toString v) (Some 1) then [] else [invalid ''body'' ''quantity'' v])"

definition quantity_optional :: "jsval \<Rightarrow> verror list" where
  "quantity_optional v =
     (if v = JUndefined then []
      else if isInt (toString v) (Some 1) then [] else [invalid ''body'' ''quantity'' v])"

text \<open>
  The validators of each route, run in the order they are registered: the error list
  \<open>validationResult(req)\<close> holds afterwards, and the request with its sanitized body.
\<close>

definition post_validation :: "request \<Rightarrow> verror list \<times> request" where
  "post_validation req =
     (case name_required (body_name req) of
        (e1, name) \<Rightarrow>
          (e1 @ quantity_required (body_quantity req), req\<lparr>body_name := name\<rparr>))"

definition patch_validation :: "request \<Rightarrow> verror list \<times> request" where
  "patch_validation req =
     (case name_optional (body_name req) of
        (e1, name) \<Rightarrow>
          (check_id (params_id req) @ e1 @ quantity_optional (body_quantity req),
           req\<lparr>body_name := name\<rparr>))"

definition put_validation :: "request \<Rightarrow> verror list \<times> request" where
  "put_validation req =
     (case name_required (body_name req) of
        (e1, name) \<Rightarrow>
          (check_id (params_id req) @ e1 @ quantity_required (body_quantity req),
           req\<lparr>body_name := name\<rparr>))"

definition delete_validation :: "request \<Rightarrow> verror list \<times> request" where
  "delete_validation req = (check_id (params_id req), req)"

text \<open>
  What a query resolves to: the rows of a SELECT, or the packet of an INSERT, UPDATE or
  DELETE with its \<open>affectedRows\<close> and \<open>insertId\<close>, two numbers. Reading either property
  of an array of rows gives undefined.
\<close>

type_synonym row = "(string \<times> jsval) list"

datatype qresult = Rows "row list" | OkPacket "54 word" "54 word"

fun affectedRows :: "qresult \<Rightarrow> jsval" where
  "affectedRows (OkPacket a i) = JNum a"
| "affectedRows (Rows rs) = JUndefined"

fun insertId :: "qresult \<Rightarrow> jsval" where
  "insertId (OkPacket a i) = JNum i"
| "insertId (Rows rs) = JUndefined"

text \<open>
  The bodies the handlers send: \<open>{ errors: [...] }\<close>, \<open>{ error: message }\<close>, the result
  of a query as it came, \<open>{ id, name, quantity }\<close>, \<open>{ msg, affectedRows }\<close> and plain text.
\<close>

datatype payload =
    ErrorsBody "verror list"
  | ErrorBody string
  | ResultBody qresult
  | CreatedBody jsval jsval jsval
  | MsgBody string jsval
  | TextBody string

record response =
  status :: nat
  payload :: payload

definition json :: "nat \<Rightarrow> payload \<Rightarrow> response" where
  "json code b = \<lparr>status = code, payload = b\<rparr>"

section \<open>The connection pool and the query executor\<close>

text \<open>
  The database and its driver are outside the program. A driver says whether the pool
  hands out a connection (\<open>None\<close>) or rejects with a message, and what running a statement
  with a list of values (or with none) gives and leaves in the database. The world is the
  database together with the calls made on the pool and its connections so far.
\<close>

datatype event = GetConnection | Query string "jsval list option" | Release

record 'db driver =
  connect :: "'db \<Rightarrow> string option"
  run :: "string \<Rightarrow> jsval list option \<Rightarrow> 'db \<Rightarrow> (string + qresult) \<times> 'db"

record 'db world =
  db :: 'db
  calls :: "event list"

definition getConnection :: "'db driver \<Rightarrow> 'db world \<Rightarrow> (string + unit) \<times> 'db world" where
  "getConnection drv w =
     (case connect drv (db w) of
        Some err \<Rightarrow> (Inl err, w\<lparr>calls := calls w @ [GetConnection]\<rparr>)
      | None \<Rightarrow> (Inr (), w\<lparr>calls := calls w @ [GetConnection]\<rparr>))"

definition query ::
  "'db driver \<Rightarrow> string \<Rightarrow> jsval list option \<Rightarrow> 'db world \<Rightarrow> (string + qresult) \<times> 'db world" where
  "query drv sql vals w =
     (case run drv sql vals (db w) of
        (r, d) \<Rightarrow> (r, w\<lparr>db := d, calls := calls w @ [Query sql vals]\<rparr>))"

definition release :: "'db world \<Rightarrow> 'db world" where
  "release w = w\<lparr>calls := calls w @ [Release]\<rparr>"

text \<open>
  \<open>queryDB\<close> declares the one parameter \<open>sql\<close>. A second argument of a call is
  evaluated and discarded, as JavaScript does with an argument beyond the declared
  parameters: it is \<open>extra\<close> below, and \<open>conn.query(sql)\<close> is called with no values.
  The \<open>finally\<close> block releases the connection when \<open>conn\<close> was assigned, on both
  outcomes of the query.
\<close>

definition queryDB ::
  "'db driver \<Rightarrow> string \<Rightarrow> jsval list option \<Rightarrow> 'db world \<Rightarrow> (string + qresult) \<times> 'db world" where
  "queryDB drv sql extra w =
     (case getConnection drv w of
        (Inl err, w1) \<Rightarrow> (Inl err, w1)
      | (Inr conn, w1) \<Rightarrow>
          (case query drv sql None w1 of
             (Inl err, w2) \<Rightarrow> (Inl err, release w2)
           | (Inr rows, w2) \<Rightarrow> (Inr rows, release w2)))"

section \<open>The route handlers\<close>

text \<open>
  A handler is written over the executor it calls, so that the statement and the values
  of the call can be read off; the server binds that executor to \<open>queryDB\<close> (below).
  The executor takes the statement, the second argument of the call when there is one,
  and the world, and gives the rows it resolves to or the message of the error it throws.
  The \<open>catch\<close> block of a handler turns that message into the 500 response; sending a
  response is taken not to throw.
\<close>

type_synonym 'w executor = "string \<Rightarrow> jsval list option \<Rightarrow> 'w \<Rightarrow> (string + qresult) \<times> 'w"

text \<open>\<open>Array.prototype.join\<close>.\<close>

fun join :: "string \<Rightarrow> string list \<Rightarrow> string" where
  "join sep [] = []"
| "join sep [x] = x"
| "join sep (x # y # ys) = x @ sep @ join sep (y # ys)"

definition get_orders :: "'w executor \<Rightarrow> 'w \<Rightarrow> response \<times> 'w" where
  "get_orders exec w =
     (case exec ''SELECT * FROM orders;'' None w of
        (Inr rows, w') \<Rightarrow> (json 200 (ResultBody rows), w')
      | (Inl err, w') \<Rightarrow> (json 500 (ErrorBody err), w'))"

definition post_orders :: "'w executor \<Rightarrow> request \<Rightarrow> 'w \<Rightarrow> response \<times> 'w" where
  "post_orders exec req0 w =
     (case post_validation req0 of
        (errors, req) \<Rightarrow>
          if errors \<noteq> [] then (json 400 (ErrorsBody errors), w)
          else
            let name = body_name req; quantity = body_quantity req
            in (case exec ''INSERT INTO orders(name, quantity) VALUES (?, ?)''
                      (Some [name, quantity]) w of
                 (Inr result, w') \<Rightarrow>
                   (json 201 (CreatedBody (insertId result) name quantity), w')
               | (Inl err, w') \<Rightarrow> (json 500 (ErrorBody err), w')))"

definition patch_order :: "'w executor \<Rightarrow> request \<Rightarrow> 'w \<Rightarrow> response \<times> 'w" where
  "patch_order exec req0 w =
     (case patch_validation req0 of
        (errors, req) \<Rightarrow>
          if errors \<noteq> [] then (json 400 (ErrorsBody errors), w)
          else
            let name = body_name req; quantity = body_quantity req;
                ident = JStr (params_id req);
                updates = (if truthy name then [''name=?''] else [])
                          @ (if truthy quantity then [''quantity=?''] else []);
                vals = (if truthy name then [name] else [])
                       @ (if truthy quantity then [quantity] else [])
                       @ [ident]
            in (case exec (''UPDATE orders SET '' @ join '', '' updates @ '' WHERE id=?'')
                      (Some vals) w of
                 (Inr result, w') \<Rightarrow>
                   (json 200 (MsgBody ''Order updated'' (affectedRows result)), w')
               | (Inl err, w') \<Rightarrow> (json 500 (ErrorBody err), w')))"

definition put_order :: "'w executor \<Rightarrow> request \<Rightarrow> 'w \<Rightarrow> response \<times> 'w" where
  "put_order exec req0 w =
     (case put_validation req0 of
        (errors, req) \<Rightarrow>
          if errors \<noteq> [] then (json 400 (ErrorsBody errors), w)
          else
            let name = body_name req; quantity = body_quantity req;
                ident = JStr (params_id req)
            in (case exec ''UPDATE orders SET name=?, quantity=? WHERE id=?''
                      (Some [name, quantity, ident]) w of
                 (Inr result, w') \<Rightarrow>
                   (json 200 (MsgBody ''Order replaced'' (affectedRows result)), w')
               | (Inl err, w') \<Rightarrow> (json 500 (ErrorBody err), w')))"

definition delete_order :: "'w executor \<Rightarrow> request \<Rightarrow> 'w \<Rightarrow> response \<times> 'w" where
  "delete_order exec req0 w =
     (case delete_validation req0 of
        (errors, req) \<Rightarrow>
          if errors \<noteq> [] then (json 400 (ErrorsBody errors), w)
          else
            let ident = JStr (params_id req)
            in (case exec ''DELETE FROM orders WHERE id=?'' (Some [ident]) w of
                 (Inr result, w') \<Rightarrow>
                   (json 200 (MsgBody ''Order deleted'' (affectedRows result)), w')
               | (Inl err, w') \<Rightarrow> (json 500 (ErrorBody err), w')))"

definition get_student :: "'w executor \<Rightarrow> 'w \<Rightarrow> response \<times> 'w" where
  "get_student exec w =
     (case exec ''SELECT * FROM student;'' None w of
        (Inr rows, w') \<Rightarrow> (json 200 (ResultBody rows), w')
      | (Inl err, w') \<Rightarrow> (json 500 (ErrorBody err), w'))"

definition get_foods :: "'w executor \<Rightarrow> 'w \<Rightarrow> response \<times> 'w" where
  "get_foods exec w =
     (case exec ''SELECT * FROM foods;'' None w of
        (Inr rows, w') \<Rightarrow> (json 200 (ResultBody rows), w')
      | (Inl err, w') \<Rightarrow> (json 500 (ErrorBody err), w'))"

definition get_root :: "response" where
  "get_root = json 200 (TextBody ''Hello from Express + MariaDB API'')"

subsection \<open>Routing, and the server with every handler bound to \<open>queryDB\<close>\<close>

datatype route =
    GetOrders | PostOrders | PatchOrder | PutOrder | DeleteOrder | GetStudent | GetFoods

fun handle :: "'w executor \<Rightarrow> route \<Rightarrow> request \<Rightarrow> 'w \<Rightarrow> response \<times> 'w" where
  "handle exec GetOrders req w = get_orders exec w"
| "handle exec PostOrders req w = post_orders exec req w"
| "handle exec PatchOrder req w = patch_order exec req w"
| "handle exec PutOrder req w = put_order exec req w"
| "handle exec DeleteOrder req w = delete_order exec req w"
| "handle exec GetStudent req w = get_student exec w"
| "handle exec GetFoods req w = get_foods exec w"

definition serve :: "'db driver \<Rightarrow> route \<Rightarrow> request \<Rightarrow> 'db world \<Rightarrow> response \<times> 'db world" where
  "serve drv = handle (queryDB drv)"



text \<open>The error list a route's validators leave; the listing routes have no validators.\<close>

fun validation_errors :: "route \<Rightarrow> request \<Rightarrow> verror list" where
  "validation_errors PostOrders req = fst (post_validation req)"
| "validation_errors PatchOrder req = fst (patch_validation req)"
| "validation_errors PutOrder req = fst (put_validation req)"
| "validation_errors DeleteOrder req = fst (delete_validation req)"
| "validation_errors GetOrders req = []"
| "validation_errors GetStudent req = []"
| "validation_errors GetFoods req = []"

section \<open>Collaborators to run the server against\<close>

text \<open>
  An executor that records each call it receives (statement and values) and answers
  with a fixed outcome.
\<close>

definition spy ::
  "(string + qresult) \<Rightarrow> (string \<times> jsval list option) list executor" where
  "spy outcome sql vals log = (outcome, log @ [(sql, vals)])"

text \<open>
  Four drivers: a database that keeps a journal of the statements it is sent, with their
  values, and reports one affected row and the next insert id; a database that rejects every
  statement with a message; a database that rejects one statement with a message and
  accepts every other; a pool that cannot hand out a connection.
\<close>

definition journal_driver :: "(string \<times> jsval list option) list driver" where
  "journal_driver =
     \<lparr>connect = (\<lambda>d. None),
      run = (\<lambda>sql vals d. (Inr (OkPacket 1 (of_nat (length d) + 1)), d @ [(sql, vals)]))\<rparr>"

definition rejecting_driver :: "string \<Rightarrow> unit driver" where
  "rejecting_driver m = \<lparr>connect = (\<lambda>d. None), run = (\<lambda>sql vals d. (Inl m, d))\<rparr>"



text \<open>Two well-formed orders, an initial world, and a request whose name is blank.\<close>

definition widget :: request where
  "widget = \<lparr>params_id = ''1'', body_name = JStr ''Widget'', body_quantity = JNum 5\<rparr>"

definition gadget :: request where
  "gadget = \<lparr>params_id = ''2'', body_name = JStr ''Gadget'', body_quantity = JNum 9\<rparr>"

definition blank_name :: request where
  "blank_name = \<lparr>params_id = ''1'', body_name = JStr ''   '', body_quantity = JUndefined\<rparr>"

definition start :: "'db \<Rightarrow> 'db world" where
  "start d = \<lparr>db = d, calls = []\<rparr>"

section \<open>Facts about the library functions\<close>

lemma digit_char_is_digit: "d < 10 \<Longrightarrow> is_digit (digit_char d)"
  by (simp add: is_digit_def digit_char_def)

lemma digit_val_digit_char: "d < 10 \<Longrightarrow> digit_val (digit_char d) = d"
  by (simp add: digit_val_def digit_char_def)

lemma is_digit_not_sign: "is_digit c \<Longrightarrow> c \<noteq> CHR ''-'' \<and> c \<noteq> CHR ''+''"
  by (auto simp: is_digit_def)

lemma show_nat_nonempty: "show_nat n \<noteq> []"
  by (induction n rule: show_nat.induct) (subst show_nat.simps, simp)

lemma show_nat_digits: "list_all is_digit (show_nat n)"
proof (induction n rule: show_nat.induct)
  case (1 n)
  show ?case
  proof (cases "n < 10")
    case True
    then show ?thesis by (subst show_nat.simps) (simp add: digit_char_is_digit)
  next
    case False
    with 1 show ?thesis by (subst show_nat.simps) (simp add: digit_char_is_digit)
  qed
qed

lemma digits_value_snoc: "digits_value (ds @ [c]) = 10 * digits_value ds + digit_val c"
  by (simp add: digits_value_def)

lemma digits_value_show_nat: "digits_value (show_nat n) = n"
proof (induction n rule: show_nat.induct)
  case (1 n)
  show ?case
  proof (cases "n < 10")
    case True
    then show ?thesis
      by (subst show_nat.simps) (simp add: digits_value_def digit_val_digit_char)
  next
    case False
    with 1 have "digits_value (show_nat (n div 10)) = n div 10" by simp
    with False show ?thesis
      by (subst show_nat.simps) (simp add: digits_value_snoc digit_val_digit_char)
  qed
qed

lemma unsigned_part_digits: "list_all is_digit s \<Longrightarrow> unsigned_part s = s"
  by (cases s) (auto simp: unsigned_part_def dest: is_digit_not_sign)

lemma unsigned_part_minus: "unsigned_part (CHR ''-'' # r) = r"
  by (simp add: unsigned_part_def)

lemma int_syntax_show_int: "int_syntax (show_int i)"
proof (cases "i < 0")
  case True
  then show ?thesis
    by (simp add: int_syntax_def show_int_def unsigned_part_minus show_nat_digits show_nat_nonempty)
next
  case False
  then show ?thesis
    by (simp add: int_syntax_def show_int_def unsigned_part_digits show_nat_digits show_nat_nonempty)
qed

lemma to_number_show_int: "to_number (show_int i) = i"
proof (cases "i < 0")
  case True
  then show ?thesis by (simp add: to_number_def show_int_def digits_value_show_nat)
next
  case False
  obtain c r where cr: "show_nat (nat i) = c # r"
    using show_nat_nonempty [of "nat i"] by (cases "show_nat (nat i)") auto
  have "is_digit c" using show_nat_digits [of "nat i"] cr by simp
  then have "c \<noteq> CHR ''-''" by (simp add: is_digit_not_sign)
  moreover have "unsigned_part (c # r) = c # r"
    using unsigned_part_digits [OF show_nat_digits, of "nat i"] cr by simp
  moreover have "digits_value (c # r) = nat i"
    using digits_value_show_nat [of "nat i"] cr by simp
  ultimately show ?thesis using False cr by (simp add: to_number_def show_int_def)
qed

lemma isInt_number: "isInt (show_int n) (Some m) \<longleftrightarrow> m \<le> n"
  by (simp add: isInt_def int_syntax_show_int to_number_show_int)

lemma escape_char_nonempty: "escape_char c \<noteq> []"
  by (simp add: escape_char_def)

lemma escape_empty_iff: "escape s = [] \<longleftrightarrow> s = []"
  by (cases s) (simp_all add: escape_def escape_char_nonempty)

lemma not_int_syntax_bool: "\<not> int_syntax (toString (JBool b))"
  by (cases b) (simp_all add: int_syntax_def unsigned_part_def is_digit_def)

lemma not_int_syntax_empty: "\<not> int_syntax []"
  by (simp add: int_syntax_def unsigned_part_def)

lemma valid_quantity_cases:
  assumes "isInt (toString q) (Some 1)"
  shows "(\<exists>n. q = JNum n \<and> 1 \<le> sint n) \<or> (\<exists>t. q = JStr t \<and> int_syntax t \<and> 1 \<le> to_number t)"
proof (cases q)
  case (JNum n)
  with assms show ?thesis by (simp add: isInt_number)
next
  case (JStr t)
  with assms show ?thesis by (simp add: isInt_def)
next
  case (JBool b)
  with assms not_int_syntax_bool [of b] show ?thesis by (simp add: isInt_def)
qed (use assms in \<open>simp_all add: isInt_def not_int_syntax_empty\<close>)

lemma valid_quantity_truthy: "isInt (toString q) (Some 1) \<Longrightarrow> truthy q"
  using valid_quantity_cases [of q] by (auto simp: not_int_syntax_empty)

text \<open>What \<open>trim\<close> removes is whitespace at both ends, and it leaves none there.\<close>

lemma rtrim_parts: "s = rtrim s @ rev (takeWhile is_space (rev s))"
proof -
  have "rev (dropWhile is_space (rev s)) @ rev (takeWhile is_space (rev s))
          = rev (takeWhile is_space (rev s) @ dropWhile is_space (rev s))"
    by (simp only: rev_append)
  also have "\<dots> = s" by (simp only: takeWhile_dropWhile_id rev_rev_ident)
  finally show ?thesis by (simp add: rtrim_def)
qed

lemma trim_parts:
  "s = takeWhile is_space s @ trim s @ rev (takeWhile is_space (rev (ltrim s)))"
proof -
  have "s = takeWhile is_space s @ ltrim s" by (simp add: ltrim_def)
  also have "ltrim s = trim s @ rev (takeWhile is_space (rev (ltrim s)))"
    unfolding trim_def by (rule rtrim_parts)
  finally show ?thesis .
qed

lemma rtrim_no_trailing: "rtrim s \<noteq> [] \<Longrightarrow> \<not> is_space (last (rtrim s))"
  by (simp add: rtrim_def last_rev hd_dropWhile)

lemma trim_no_trailing: "trim s \<noteq> [] \<Longrightarrow> \<not> is_space (last (trim s))"
  unfolding trim_def by (rule rtrim_no_trailing)

lemma trim_no_leading: "trim s \<noteq> [] \<Longrightarrow> \<not> is_space (hd (trim s))"
proof -
  assume n: "trim s \<noteq> []"
  have l: "ltrim s = trim s @ rev (takeWhile is_space (rev (ltrim s)))"
    unfolding trim_def by (rule rtrim_parts)
  from n have "hd (ltrim s) = hd (trim s)" by (subst l) simp
  moreover from n l have "ltrim s \<noteq> []" by auto
  then have "\<not> is_space (hd (ltrim s))" by (simp add: ltrim_def hd_dropWhile)
  ultimately show ?thesis by simp
qed

section \<open>Facts about the validators, the handlers and the executor\<close>

lemma name_optional_no_errors: "fst (name_optional v) = []"
  by (simp add: name_optional_def Let_def)

lemma name_optional_value:
  "snd (name_optional v) =
     (if v = JUndefined then JUndefined else JStr (escape (trim (toString v))))"
  by (simp add: name_optional_def Let_def)

lemma quantity_optional_cases:
  "quantity_optional q = [] \<Longrightarrow> q = JUndefined \<or> isInt (toString q) (Some 1)"
  by (simp add: quantity_optional_def split: if_splits)

lemma quantity_required_valid: "quantity_required q = [] \<Longrightarrow> isInt (toString q) (Some 1)"
  by (simp add: quantity_required_def split: if_splits)


lemma post_orders_invalid:
  "fst (post_validation req) \<noteq> [] \<Longrightarrow>
   post_orders exec req w = (json 400 (ErrorsBody (fst (post_validation req))), w)"
  by (cases "post_validation req") (simp add: post_orders_def)

lemma patch_order_invalid:
  "fst (patch_validation req) \<noteq> [] \<Longrightarrow>
   patch_order exec req w = (json 400 (ErrorsBody (fst (patch_validation req))), w)"
  by (cases "patch_validation req") (simp add: patch_order_def)

lemma put_order_invalid:
  "fst (put_validation req) \<noteq> [] \<Longrightarrow>
   put_order exec req w = (json 400 (ErrorsBody (fst (put_validation req))), w)"
  by (cases "put_validation req") (simp add: put_order_def)

lemma delete_order_invalid:
  "fst (delete_validation req) \<noteq> [] \<Longrightarrow>
   delete_order exec req w = (json 400 (ErrorsBody (fst (delete_validation req))), w)"
  by (cases "delete_validation req") (simp add: delete_order_def)

lemma post_orders_valid:
  "fst (post_validation req) = [] \<Longrightarrow>
   post_orders exec req w =
     (case exec ''INSERT INTO orders(name, quantity) VALUES (?, ?)''
             (Some [body_name (snd (post_validation req)), body_quantity req]) w of
        (Inr result, w') \<Rightarrow>
          (json 201 (CreatedBody (insertId result) (body_name (snd (post_validation req)))
             (body_quantity req)), w')
      | (Inl err, w') \<Rightarrow> (json 500 (ErrorBody err), w'))"
  by (cases "name_required (body_name req)")
     (simp add: post_orders_def post_validation_def Let_def split: prod.splits sum.splits)

lemma put_order_valid:
  "fst (put_validation req) = [] \<Longrightarrow>
   put_order exec req w =
     (case exec ''UPDATE orders SET name=?, quantity=? WHERE id=?''
             (Some [body_name (snd (put_validation req)), body_quantity req,
                    JStr (params_id req)]) w of
        (Inr result, w') \<Rightarrow> (json 200 (MsgBody ''Order replaced'' (affectedRows result)), w')
      | (Inl err, w') \<Rightarrow> (json 500 (ErrorBody err), w'))"
  by (cases "name_required (body_name req)")
     (simp add: put_order_def put_validation_def Let_def split: prod.splits sum.splits)


lemma patch_order_valid:
  "fst (patch_validation req) = [] \<Longrightarrow>
   patch_order exec req w =
     (case exec
        (''UPDATE orders SET ''
          @ (if truthy (body_name (snd (patch_validation req))) \<and> truthy (body_quantity req)
             then ''name=?, quantity=?''
             else if truthy (body_name (snd (patch_validation req))) then ''name=?''
             else if truthy (body_quantity req) then ''quantity=?''
             else [])
          @ '' WHERE id=?'')
        (Some ((if truthy (body_name (snd (patch_validation req)))
                then [body_name (snd (patch_validation req))] else [])
               @ (if truthy (body_quantity req) then [body_quantity req] else [])
               @ [JStr (params_id req)])) w of
        (Inr result, w') \<Rightarrow> (json 200 (MsgBody ''Order updated'' (affectedRows result)), w')
      | (Inl err, w') \<Rightarrow> (json 500 (ErrorBody err), w'))"
  by (cases "name_optional (body_name req)")
     (simp add: patch_order_def patch_validation_def Let_def split: prod.splits sum.splits)

lemma queryDB_connected:
  "connect drv (db w) = None \<Longrightarrow>
   queryDB drv sql extra w =
     (fst (run drv sql None (db w)),
      w\<lparr>db := snd (run drv sql None (db w)),
        calls := calls w @ [GetConnection, Query sql None, Release]\<rparr>)"
  by (cases "run drv sql None (db w)")
     (auto simp: queryDB_def getConnection_def query_def release_def split: sum.splits)


lemma queryDB_extra_ignored: "queryDB drv sql extra w = queryDB drv sql None w"
  by (simp add: queryDB_def)

lemma handle_invalid:
  "validation_errors rt req \<noteq> [] \<Longrightarrow>
   handle exec rt req w = (json 400 (ErrorsBody (validation_errors rt req)), w)"
  by (cases rt)
     (simp_all add: post_orders_invalid patch_order_invalid put_order_invalid
        delete_order_invalid)

lemma bad_id_invalid:
  "rt \<in> {PatchOrder, PutOrder, DeleteOrder} \<Longrightarrow> \<not> isInt (params_id req) None \<Longrightarrow>
   validation_errors rt req \<noteq> []"
  by (auto simp: patch_validation_def put_validation_def delete_validation_def check_id_def
      split: prod.splits)

lemma widget_valid: "fst (post_validation widget) = [] \<and> fst (put_validation widget) = []
   \<and> body_name (snd (post_validation widget)) = JStr ''Widget''
   \<and> body_name (snd (put_validation widget)) = JStr ''Widget''
   \<and> body_quantity widget = JNum 5 \<and> params_id widget = ''1''"
  by code_simp

lemma gadget_valid: "fst (post_validation gadget) = [] \<and> fst (put_validation gadget) = []
   \<and> body_name (snd (post_validation gadget)) = JStr ''Gadget''
   \<and> body_name (snd (put_validation gadget)) = JStr ''Gadget''
   \<and> body_quantity gadget = JNum 9 \<and> params_id gadget = ''2''"
  by code_simp

lemma patch_sanitized_name:
  "body_name (snd (patch_validation req)) = snd (name_optional (body_name req))"
  by (cases "name_optional (body_name req)") (simp add: patch_validation_def)

lemma patch_errors:
  "fst (patch_validation req)
     = check_id (params_id req) @ quantity_optional (body_quantity req)"
  using name_optional_no_errors [of "body_name req"]
  by (cases "name_optional (body_name req)") (simp add: patch_validation_def)

lemma patch_errors_empty_iff:
  "fst (patch_validation req) = [] \<longleftrightarrow>
     isInt (params_id req) None
     \<and> (body_quantity req = JUndefined \<or> isInt (toString (body_quantity req)) (Some 1))"
  by (auto simp: patch_errors check_id_def quantity_optional_def)

lemma status_of_reply:
  "status (fst (case out of (Inr result, w') \<Rightarrow> (json 200 (f result), w')
                | (Inl err, w') \<Rightarrow> (json 500 (g err), w'))) \<noteq> 400"
  by (cases out; cases "fst out") (auto simp: json_def)






lemma patch_errors_without_name:
  "fst (patch_validation (req\<lparr>body_name := v\<rparr>)) = fst (patch_validation req)"
  by (simp add: patch_errors)

lemma patch_status_400_iff:
  "status (fst (patch_order exec req w)) = 400 \<longleftrightarrow> fst (patch_validation req) \<noteq> []"
proof (cases "fst (patch_validation req) = []")
  case True
  then show ?thesis by (simp add: patch_order_valid status_of_reply)
next
  case False
  then show ?thesis by (simp add: patch_order_invalid json_def)
qed




section \<open>The claims\<close>

text \<open>
  Claim C1: a statement a handler issues with a parameter list is executed with those values
  bound into it. The executor does not do so: \<open>queryDB\<close> forwards the statement alone, so
  the result of a call is the same with and without values. For the order Widget / 5 the
  handler passes the name and the quantity to the executor, and the statement reaches the
  database with no values.
\<close>

theorem post_values_not_bound:
  "queryDB drv sql (Some vals) w = queryDB drv sql None w
   \<and> snd (post_orders (spy r) widget [])
       = [(''INSERT INTO orders(name, quantity) VALUES (?, ?)'', Some [JStr ''Widget'', JNum 5])]
   \<and> snd (serve journal_driver PostOrders widget (start []))
       = \<lparr>db = [(''INSERT INTO orders(name, quantity) VALUES (?, ?)'', None)],
          calls = [GetConnection,
                   Query ''INSERT INTO orders(name, quantity) VALUES (?, ?)'' None,
                   Release]\<rparr>"
proof -
  have a: "queryDB drv sql (Some vals) w = queryDB drv sql None w"
    by (rule queryDB_extra_ignored)
  have b: "snd (post_orders (spy r) widget [])
       = [(''INSERT INTO orders(name, quantity) VALUES (?, ?)'', Some [JStr ''Widget'', JNum 5])]"
    using widget_valid by (cases r) (simp_all add: post_orders_valid spy_def)
  have c: "connect journal_driver (db (start [])) = None"
    by (simp add: journal_driver_def)
  have d: "snd (serve journal_driver PostOrders widget (start []))
       = \<lparr>db = [(''INSERT INTO orders(name, quantity) VALUES (?, ?)'', None)],
          calls = [GetConnection,
                   Query ''INSERT INTO orders(name, quantity) VALUES (?, ?)'' None,
                   Release]\<rparr>"
    using widget_valid
    by (simp add: serve_def post_orders_valid queryDB_connected [OF c])
       (simp add: journal_driver_def start_def)
  from a b d show ?thesis by simp
qed

text \<open>
  Claim C2, as amended: on PATCH a name that is supplied is trimmed and HTML-escaped, and
  no length is asked of it, so the name never causes a rejection: the error list, and
  whether the answer is 400, are those of the same request without the name.
\<close>

theorem patch_name_sanitized_unchecked:
  assumes "body_name req \<noteq> JUndefined"
  shows "body_name (snd (patch_validation req)) = JStr (escape (trim (toString (body_name req))))
       \<and> validation_errors PatchOrder req
           = validation_errors PatchOrder (req\<lparr>body_name := JUndefined\<rparr>)
       \<and> (status (fst (patch_order exec req w)) = 400
            \<longleftrightarrow> status (fst (patch_order exec (req\<lparr>body_name := JUndefined\<rparr>) w)) = 400)"
  using assms
  by (simp add: patch_sanitized_name name_optional_value patch_status_400_iff
      patch_errors_without_name)

theorem patch_name_sanitized_unchecked_witness:
  "body_name \<lparr>params_id = ''1'', body_name = JStr '' <b>  '', body_quantity = JNum 0\<rparr> \<noteq> JUndefined
   \<and> body_name (snd (patch_validation
        \<lparr>params_id = ''1'', body_name = JStr '' <b>  '', body_quantity = JNum 0\<rparr>))
       = JStr ''&lt;b&gt;''
   \<and> validation_errors PatchOrder
        \<lparr>params_id = ''1'', body_name = JStr '' <b>  '', body_quantity = JNum 0\<rparr>
       = [\<lparr>err_value = JNum 0, err_msg = ''Invalid value'', err_param = ''quantity'',
           err_location = ''body''\<rparr>]
   \<and> validation_errors PatchOrder
        \<lparr>params_id = ''1'', body_name = JUndefined, body_quantity = JNum 0\<rparr>
       = [\<lparr>err_value = JNum 0, err_msg = ''Invalid value'', err_param = ''quantity'',
           err_location = ''body''\<rparr>]
   \<and> body_name blank_name \<noteq> JUndefined
   \<and> body_name (snd (patch_validation blank_name)) = JStr ''''
   \<and> validation_errors PatchOrder blank_name = []
   \<and> validation_errors PatchOrder (blank_name\<lparr>body_name := JUndefined\<rparr>) = []"
proof -
  let ?a = "\<lparr>params_id = ''1'', body_name = JStr '' <b>  '', body_quantity = JNum 0\<rparr>"
  have a: "body_name ?a \<noteq> JUndefined" by simp
  have b: "body_name blank_name \<noteq> JUndefined" by code_simp
  have e: "escape (trim (toString (body_name ?a))) = ''&lt;b&gt;''" by code_simp
  have f: "escape (trim (toString (body_name blank_name))) = ''''" by code_simp
  have v: "validation_errors PatchOrder (?a\<lparr>body_name := JUndefined\<rparr>)
       = [\<lparr>err_value = JNum 0, err_msg = ''Invalid value'', err_param = ''quantity'',
           err_location = ''body''\<rparr>]" by code_simp
  have u: "validation_errors PatchOrder (blank_name\<lparr>body_name := JUndefined\<rparr>) = []"
    by code_simp
  from patch_name_sanitized_unchecked [OF a, of "spy (Inr (OkPacket 1 0))" "[]"]
       patch_name_sanitized_unchecked [OF b, of "spy (Inr (OkPacket 1 0))" "[]"]
       b e f v u
  show ?thesis by simp
qed

text \<open>
  Counterexample to claim C2 as written, which asks for a 400 unless the trimmed name has a
  character: a PATCH whose name is three spaces has a trimmed name of length 0 and passes
  validation. It is answered 200 when the database accepts the statement and 500 when the
  database rejects it, never 400.
\<close>

theorem patch_blank_name_counterexample:
  "body_name \<lparr>params_id = ''1'', body_name = JStr ''   '', body_quantity = JUndefined\<rparr> = JStr ''   ''
   \<and> length (trim ''   '') = 0
   \<and> validation_errors PatchOrder
        \<lparr>params_id = ''1'', body_name = JStr ''   '', body_quantity = JUndefined\<rparr> = []
   \<and> fst (serve journal_driver PatchOrder
        \<lparr>params_id = ''1'', body_name = JStr ''   '', body_quantity = JUndefined\<rparr> (start []))
       = \<lparr>status = 200, payload = MsgBody ''Order updated'' (JNum 1)\<rparr>
   \<and> fst (serve (rejecting_driver ''ER_PARSE_ERROR'') PatchOrder
        \<lparr>params_id = ''1'', body_name = JStr ''   '', body_quantity = JUndefined\<rparr> (start ()))
       = \<lparr>status = 500, payload = ErrorBody ''ER_PARSE_ERROR''\<rparr>"
  by code_simp


text \<open>
  Claim C4: whenever the pool hands out a connection, the executor releases it on every
  exit path. The calls it adds are the acquisition, the query and one release, in that
  order, whether the query resolves or rejects, and the executor returns the outcome of
  the query.
\<close>

theorem queryDB_releases_once:
  assumes "connect drv (db w) = None"
  shows "calls (snd (queryDB drv sql extra w)) = calls w @ [GetConnection, Query sql None, Release]
       \<and> count_list (calls (snd (queryDB drv sql extra w))) Release
           = count_list (calls w) Release + 1
       \<and> fst (queryDB drv sql extra w) = fst (run drv sql None (db w))"
  using assms by (simp add: queryDB_connected)

theorem queryDB_releases_once_witness:
  "connect journal_driver (db (start [])) = None
   \<and> connect (rejecting_driver ''ER_PARSE_ERROR'') (db (start ())) = None
   \<and> queryDB journal_driver ''SELECT * FROM orders;'' None (start [])
       = (Inr (OkPacket 1 1),
          \<lparr>db = [(''SELECT * FROM orders;'', None)],
           calls = [GetConnection, Query ''SELECT * FROM orders;'' None, Release]\<rparr>)
   \<and> queryDB (rejecting_driver ''ER_PARSE_ERROR'') ''DELETE FROM orders WHERE id=?''
         (Some [JStr ''1'']) (start ())
       = (Inl ''ER_PARSE_ERROR'',
          \<lparr>db = (), calls = [GetConnection, Query ''DELETE FROM orders WHERE id=?'' None, Release]\<rparr>)"
proof -
  have a: "connect journal_driver (db (start [])) = None"
    by (simp add: journal_driver_def)
  have b: "connect (rejecting_driver ''ER_PARSE_ERROR'') (db (start ())) = None"
    by (simp add: rejecting_driver_def)
  have c: "run journal_driver ''SELECT * FROM orders;'' None (db (start []))
             = (Inr (OkPacket 1 1), [(''SELECT * FROM orders;'', None)])"
    by (simp add: journal_driver_def start_def)
  have d: "run (rejecting_driver ''ER_PARSE_ERROR'') ''DELETE FROM orders WHERE id=?'' None
             (db (start ())) = (Inl ''ER_PARSE_ERROR'', ())"
    by (simp add: rejecting_driver_def)
  from queryDB_releases_once [OF a, of "''SELECT * FROM orders;''" None]
    queryDB_releases_once [OF b, of "''DELETE FROM orders WHERE id=?''" "Some [JStr ''1'']"]
  show ?thesis
    using a b c d
    by (simp add: queryDB_def getConnection_def query_def release_def start_def)
qed

text \<open>
  Claim C5: when the validators of a route leave errors, and in particular when the path id
  of PATCH, PUT or DELETE is not an integer, the response is 400 with that error list and
  the world is unchanged: no call reaches the executor, the pool or the database.
\<close>

theorem invalid_request_rejected:
  assumes "validation_errors rt req \<noteq> []
           \<or> (rt \<in> {PatchOrder, PutOrder, DeleteOrder} \<and> \<not> isInt (params_id req) None)"
  shows "validation_errors rt req \<noteq> []
       \<and> handle exec rt req v = (json 400 (ErrorsBody (validation_errors rt req)), v)
       \<and> serve drv rt req w = (json 400 (ErrorsBody (validation_errors rt req)), w)"
proof -
  from assms have "validation_errors rt req \<noteq> []" using bad_id_invalid by blast
  then show ?thesis by (simp add: serve_def handle_invalid)
qed

theorem invalid_request_rejected_witness:
  "\<not> isInt (params_id \<lparr>params_id = ''12a'', body_name = JStr ''Widget'', body_quantity = JNum 0\<rparr>) None
   \<and> serve journal_driver PatchOrder
        \<lparr>params_id = ''12a'', body_name = JStr ''Widget'', body_quantity = JNum 0\<rparr> (start [])
     = (\<lparr>status = 400,
         payload = ErrorsBody
           [\<lparr>err_value = JStr ''12a'', err_msg = ''Invalid value'', err_param = ''id'',
              err_location = ''params''\<rparr>,
            \<lparr>err_value = JNum 0, err_msg = ''Invalid value'', err_param = ''quantity'',
              err_location = ''body''\<rparr>]\<rparr>,
        \<lparr>db = [], calls = []\<rparr>)"
proof -
  let ?req = "\<lparr>params_id = ''12a'', body_name = JStr ''Widget'', body_quantity = JNum 0\<rparr>"
  have h: "\<not> isInt (params_id ?req) None" by code_simp
  have v: "validation_errors PatchOrder ?req
     = [\<lparr>err_value = JStr ''12a'', err_msg = ''Invalid value'', err_param = ''id'',
              err_location = ''params''\<rparr>,
            \<lparr>err_value = JNum 0, err_msg = ''Invalid value'', err_param = ''quantity'',
              err_location = ''body''\<rparr>]" by code_simp
  have "validation_errors PatchOrder ?req \<noteq> []
           \<or> (PatchOrder \<in> {PatchOrder, PutOrder, DeleteOrder} \<and> \<not> isInt (params_id ?req) None)"
    using h by simp
  from invalid_request_rejected
         [OF this, where exec = "spy (Inl [])" and v = "[]" and drv = journal_driver and w = "start []"]
       h v
  show ?thesis by (simp add: json_def start_def)
qed

text \<open>
  Claim C6: for a PATCH that passes validation, the SET clause of the statement holds the
  name and the quantity that are truthy in the body as the handler reads it (the name after
  sanitization), in that order; the values are those fields followed by the id; with
  neither field the SET clause is empty.
\<close>

theorem patch_set_clause:
  assumes "validation_errors PatchOrder req = []"
  shows "let name = body_name (snd (patch_validation req)); quantity = body_quantity req in
     patch_order exec req w =
       (case exec
          (''UPDATE orders SET ''
            @ (if truthy name \<and> truthy quantity then ''name=?, quantity=?''
               else if truthy name then ''name=?''
               else if truthy quantity then ''quantity=?''
               else [])
            @ '' WHERE id=?'')
          (Some ((if truthy name then [name] else [])
                 @ (if truthy quantity then [quantity] else [])
                 @ [JStr (params_id req)])) w of
          (Inr result, w') \<Rightarrow> (json 200 (MsgBody ''Order updated'' (affectedRows result)), w')
        | (Inl err, w') \<Rightarrow> (json 500 (ErrorBody err), w'))"
  using assms by (simp add: Let_def patch_order_valid)

theorem patch_set_clause_witness:
  "validation_errors PatchOrder \<lparr>params_id = ''7'', body_name = JStr '' a<b '', body_quantity = JNum 3\<rparr> = []
   \<and> patch_order (spy (Inr (OkPacket 1 0)))
        \<lparr>params_id = ''7'', body_name = JStr '' a<b '', body_quantity = JNum 3\<rparr> []
     = (\<lparr>status = 200, payload = MsgBody ''Order updated'' (JNum 1)\<rparr>,
        [(''UPDATE orders SET name=?, quantity=? WHERE id=?'',
          Some [JStr ''a&lt;b'', JNum 3, JStr ''7''])])
   \<and> validation_errors PatchOrder \<lparr>params_id = ''7'', body_name = JUndefined, body_quantity = JStr ''12''\<rparr> = []
   \<and> patch_order (spy (Inr (OkPacket 1 0)))
        \<lparr>params_id = ''7'', body_name = JUndefined, body_quantity = JStr ''12''\<rparr> []
     = (\<lparr>status = 200, payload = MsgBody ''Order updated'' (JNum 1)\<rparr>,
        [(''UPDATE orders SET quantity=? WHERE id=?'', Some [JStr ''12'', JStr ''7''])])
   \<and> validation_errors PatchOrder \<lparr>params_id = ''7'', body_name = JUndefined, body_quantity = JUndefined\<rparr> = []
   \<and> patch_order (spy (Inr (OkPacket 1 0)))
        \<lparr>params_id = ''7'', body_name = JUndefined, body_quantity = JUndefined\<rparr> []
     = (\<lparr>status = 200, payload = MsgBody ''Order updated'' (JNum 1)\<rparr>,
        [(''UPDATE orders SET  WHERE id=?'', Some [JStr ''7''])])"
proof -
  let ?a = "\<lparr>params_id = ''7'', body_name = JStr '' a<b '', body_quantity = JNum 3\<rparr>"
  let ?b = "\<lparr>params_id = ''7'', body_name = JUndefined, body_quantity = JStr ''12''\<rparr>"
  let ?c = "\<lparr>params_id = ''7'', body_name = JUndefined, body_quantity = JUndefined\<rparr>"
  have a: "validation_errors PatchOrder ?a = []" by code_simp
  have b: "validation_errors PatchOrder ?b = []" by code_simp
  have c: "validation_errors PatchOrder ?c = []" by code_simp
  have na: "body_name (snd (patch_validation ?a)) = JStr ''a&lt;b''" by code_simp
  have nb: "body_name (snd (patch_validation ?b)) = JUndefined" by code_simp
  have nc: "body_name (snd (patch_validation ?c)) = JUndefined" by code_simp
  from patch_set_clause [OF a, of "spy (Inr (OkPacket 1 0))" "[]"]
       patch_set_clause [OF b, of "spy (Inr (OkPacket 1 0))" "[]"]
       patch_set_clause [OF c, of "spy (Inr (OkPacket 1 0))" "[]"]
       a b c
  show ?thesis by (simp add: Let_def na nb nc spy_def json_def)
qed

text \<open>
  Claim C7: a valid POST answers 201 with the insert id, and a row with the posted name and
  quantity can then be read back. The second part cannot hold: whatever the driver, the
  world after posting Widget / 5 is the world after posting Gadget / 9, so a later
  GET /orders answers the same in both.
\<close>

theorem post_world_blind_to_order:
  "snd (serve drv PostOrders widget w) = snd (serve drv PostOrders gadget w)
   \<and> serve drv GetOrders req (snd (serve drv PostOrders widget w))
       = serve drv GetOrders req (snd (serve drv PostOrders gadget w))
   \<and> body_name widget \<noteq> body_name gadget \<and> body_quantity widget \<noteq> body_quantity gadget"
proof -
  have "snd (serve drv PostOrders widget w) = snd (serve drv PostOrders gadget w)"
    using widget_valid gadget_valid
    by (simp add: serve_def post_orders_valid
          queryDB_extra_ignored [of drv _ "Some _" w] split: prod.splits sum.splits)
  then show ?thesis by (simp add: widget_def gadget_def)
qed

text \<open>
  Claim C8: a valid PUT reports 0 affected rows when no row has the id, and replaces the
  name and quantity of the row that has it. The server cannot tell the two cases apart:
  whatever the driver, two valid PUT requests with different ids, names and quantities
  give the same response and the same world.
\<close>

theorem put_blind_to_request:
  "serve drv PutOrder widget w = serve drv PutOrder gadget w
   \<and> params_id widget \<noteq> params_id gadget \<and> body_name widget \<noteq> body_name gadget
   \<and> body_quantity widget \<noteq> body_quantity gadget"
proof -
  have "serve drv PutOrder widget w = serve drv PutOrder gadget w"
    using widget_valid gadget_valid
    by (simp add: serve_def put_order_valid queryDB_extra_ignored [of drv _ "Some _" w])
  then show ?thesis by (simp add: widget_def gadget_def)
qed



text \<open>
  Claim C10: a PATCH whose name is supplied and trims to the empty string, with an integer
  id and a quantity that is absent or valid, passes validation; the name is left out of
  the statement and of its values; without a quantity the statement with the empty SET
  clause is issued.
\<close>

theorem patch_blank_name_skipped:
  assumes "body_name req \<noteq> JUndefined" and "trim (toString (body_name req)) = []"
    and "isInt (params_id req) None"
    and "body_quantity req = JUndefined \<or> isInt (toString (body_quantity req)) (Some 1)"
  shows "validation_errors PatchOrder req = []
       \<and> status (fst (patch_order exec req w)) \<noteq> 400
       \<and> patch_order exec req w =
           (case exec
              (if body_quantity req = JUndefined then ''UPDATE orders SET  WHERE id=?''
               else ''UPDATE orders SET quantity=? WHERE id=?'')
              (Some (if body_quantity req = JUndefined then [JStr (params_id req)]
                     else [body_quantity req, JStr (params_id req)])) w of
              (Inr result, w') \<Rightarrow>
                (json 200 (MsgBody ''Order updated'' (affectedRows result)), w')
            | (Inl err, w') \<Rightarrow> (json 500 (ErrorBody err), w'))"
proof -
  have v: "fst (patch_validation req) = []"
    using assms(3,4) by (simp add: patch_errors_empty_iff)
  have n: "\<not> truthy (body_name (snd (patch_validation req)))"
    using assms(1,2) by (simp add: patch_sanitized_name name_optional_value escape_empty_iff)
  have q: "truthy (body_quantity req) \<longleftrightarrow> body_quantity req \<noteq> JUndefined"
    using assms(4) valid_quantity_truthy [of "body_quantity req"] by auto
  have e: "patch_order exec req w =
           (case exec
              (if body_quantity req = JUndefined then ''UPDATE orders SET  WHERE id=?''
               else ''UPDATE orders SET quantity=? WHERE id=?'')
              (Some (if body_quantity req = JUndefined then [JStr (params_id req)]
                     else [body_quantity req, JStr (params_id req)])) w of
              (Inr result, w') \<Rightarrow>
                (json 200 (MsgBody ''Order updated'' (affectedRows result)), w')
            | (Inl err, w') \<Rightarrow> (json 500 (ErrorBody err), w'))"
    by (simp add: patch_order_valid [OF v] n q)
  have "status (fst (patch_order exec req w)) \<noteq> 400"
    unfolding e by (rule status_of_reply)
  with v e show ?thesis by simp
qed

theorem patch_blank_name_skipped_witness:
  "body_name blank_name \<noteq> JUndefined \<and> trim (toString (body_name blank_name)) = []
   \<and> isInt (params_id blank_name) None \<and> body_quantity blank_name = JUndefined
   \<and> patch_order (spy (Inr (OkPacket 0 0))) blank_name []
       = (\<lparr>status = 200, payload = MsgBody ''Order updated'' (JNum 0)\<rparr>,
          [(''UPDATE orders SET  WHERE id=?'', Some [JStr ''1''])])
   \<and> isInt (toString (body_quantity (blank_name\<lparr>body_quantity := JNum 4\<rparr>))) (Some 1)
   \<and> patch_order (spy (Inr (OkPacket 1 0))) (blank_name\<lparr>body_quantity := JNum 4\<rparr>) []
       = (\<lparr>status = 200, payload = MsgBody ''Order updated'' (JNum 1)\<rparr>,
          [(''UPDATE orders SET quantity=? WHERE id=?'', Some [JNum 4, JStr ''1''])])"
proof -
  let ?b = "blank_name\<lparr>body_quantity := JNum 4\<rparr>"
  have a1: "body_name blank_name \<noteq> JUndefined" by code_simp
  have a2: "trim (toString (body_name blank_name)) = []" by code_simp
  have a3: "isInt (params_id blank_name) None" by code_simp
  have a4: "body_quantity blank_name = JUndefined" by code_simp
  have b1: "body_name ?b \<noteq> JUndefined" by code_simp
  have b2: "trim (toString (body_name ?b)) = []" by code_simp
  have b3: "isInt (params_id ?b) None" by code_simp
  have b4: "isInt (toString (body_quantity ?b)) (Some 1)" by code_simp
  have p: "params_id blank_name = ''1''" by code_simp
  from patch_blank_name_skipped [OF a1 a2 a3 disjI1 [OF a4], of "spy (Inr (OkPacket 0 0))" "[]"]
       patch_blank_name_skipped [OF b1 b2 b3 disjI2 [OF b4], of "spy (Inr (OkPacket 1 0))" "[]"]
       a1 a2 a3 a4 b4 p
  show ?thesis by (simp add: spy_def json_def)
qed

end
